theory Spec2Isabelle
  imports Complex_Main "HOL-Library.Code_Target_Nat"
begin

section \<open>JavaScript numbers\<close>

text \<open>
  A JavaScript number is an IEEE 754 double: a finite double is given by the rational it
  denotes (a negative zero is not told from zero), next to the two infinities and NaN.
  \<open>fl x\<close> is the double nearest to the rational \<open>x\<close>: 53 significant bits, a tie going
  to the even significand, subnormal below \<^verbatim>\<open>2^-1022\<close>, infinite from
  \<^verbatim>\<open>2^1024 - 2^970\<close> on. \<open>js_add\<close> and \<open>js_mul\<close> are \<^verbatim>\<open>+\<close> and \<^verbatim>\<open>*\<close> on numbers.
  A price column holds a decimal, and a quantity column an integer; JavaScript reads
  either as the nearest double.
\<close>

datatype number = Fin rat | PInf | NInf | NaN

function ilog2 :: "int \<Rightarrow> int" where
  "ilog2 n = (if n < 2 then 0 else 1 + ilog2 (n div 2))"
  by pat_completeness auto
termination
  by (relation "measure nat") auto

declare ilog2.simps [simp del]

definition pow2 :: "int \<Rightarrow> rat" where
  "pow2 e = (if 0 \<le> e then 2 ^ nat e else 1 / 2 ^ nat (- e))"

text \<open>The \<open>e\<close> with \<open>pow2 e \<le> x < pow2 (e + 1)\<close>, for a positive \<open>x\<close>.\<close>

definition exponent :: "rat \<Rightarrow> int" where
  "exponent x =
     (if 1 \<le> x then ilog2 \<lfloor>x\<rfloor>
      else - (1 + ilog2 (\<lceil>1 / x\<rceil> - 1)))"

definition round_even :: "rat \<Rightarrow> int" where
  "round_even y =
     (let f = \<lfloor>y\<rfloor>; r = y - of_int f
      in if r < 1 / 2 then f else if 1 / 2 < r then f + 1 else if even f then f else f + 1)"

definition fl_pos :: "rat \<Rightarrow> number" where
  "fl_pos x =
     (let e = max (exponent x) (- 1022);
          u = pow2 (e - 52);
          m = round_even (x / u)
      in if 1023 < e \<or> (e = 1023 \<and> m = 9007199254740992) then PInf
         else Fin (of_int m * u))"

fun negate :: "number \<Rightarrow> number" where
  "negate (Fin x) = Fin (- x)"
| "negate PInf = NInf"
| "negate NInf = PInf"
| "negate NaN = NaN"

definition fl :: "rat \<Rightarrow> number" where
  "fl x = (if x = 0 then Fin 0 else if 0 < x then fl_pos x else negate (fl_pos (- x)))"

fun js_add :: "number \<Rightarrow> number \<Rightarrow> number" where
  "js_add (Fin x) (Fin y) = fl (x + y)"
| "js_add NaN b = NaN"
| "js_add a NaN = NaN"
| "js_add PInf NInf = NaN"
| "js_add NInf PInf = NaN"
| "js_add PInf b = PInf"
| "js_add NInf b = NInf"
| "js_add a PInf = PInf"
| "js_add a NInf = NInf"

fun sign_inf :: "bool \<Rightarrow> number" where
  "sign_inf True = PInf"
| "sign_inf False = NInf"

fun js_mul :: "number \<Rightarrow> number \<Rightarrow> number" where
  "js_mul (Fin x) (Fin y) = fl (x * y)"
| "js_mul NaN b = NaN"
| "js_mul a NaN = NaN"
| "js_mul (Fin x) PInf = (if x = 0 then NaN else sign_inf (0 < x))"
| "js_mul (Fin x) NInf = (if x = 0 then NaN else sign_inf (x < 0))"
| "js_mul PInf (Fin y) = (if y = 0 then NaN else sign_inf (0 < y))"
| "js_mul NInf (Fin y) = (if y = 0 then NaN else sign_inf (y < 0))"
| "js_mul PInf PInf = PInf"
| "js_mul NInf NInf = PInf"
| "js_mul PInf NInf = NInf"
| "js_mul NInf PInf = NInf"

text \<open>
  \<^verbatim>\<open>parseFloat(x.toFixed(2))\<close>. For a finite \<open>x\<close> below \<^verbatim>\<open>1e21\<close> in magnitude,
  \<^verbatim>\<open>toFixed(2)\<close> prints the multiple of 0.01 nearest to the exact value of \<open>x\<close>, a tie
  going away from zero, and \<^verbatim>\<open>parseFloat\<close> reads the nearest double of that text; any
  other number is printed and read back as it is.
\<close>

fun toFixed2 :: "number \<Rightarrow> number" where
  "toFixed2 (Fin x) =
     (if 10 ^ 21 \<le> \<bar>x\<bar> then Fin x
      else if x < 0 then fl (- (of_int \<lfloor>- x * 100 + 1 / 2\<rfloor> / 100))
      else fl (of_int \<lfloor>x * 100 + 1 / 2\<rfloor> / 100))"
| "toFixed2 a = a"

declare js_add.simps [simp del]

declare js_mul.simps [simp del]

declare toFixed2.simps [simp del]

section \<open>Data model: the SQLite tables of the marketplace\<close>

text \<open>
  The tables are those created in \<^verbatim>\<open>server.js\<close> (\<^verbatim>\<open>initializeDatabase\<close>); a
  table is the list of its rows in insertion order, and of the users only the columns
  that the modelled queries read are kept. Row ids are \<^verbatim>\<open>INTEGER PRIMARY KEY
  AUTOINCREMENT\<close>: each table carries the next id to hand out. A price is the decimal
  that the column holds and a quantity is an integer; the amounts that JavaScript
  computes from them are doubles (section \<open>JavaScript numbers\<close>), and a \<open>NaN\<close> in a
  column stands for the \<^verbatim>\<open>NULL\<close> that SQLite keeps in its place. A product status is whatever text
  the column holds (\<^verbatim>\<open>'available'\<close>, \<^verbatim>\<open>'sold'\<close>, or any text a product update writes).

  A route is a function from the database before to a response and the database after:
  one request runs to its end before the next begins. The caller's id and role are the
  ones the token middleware puts into \<^verbatim>\<open>req.user\<close>. Whether a database statement fails
  (the \<^verbatim>\<open>err\<close> of its callback) is an input of the route, next to the request.
\<close>

record user_row =
  u_id :: nat
  u_username :: string
  u_full_name :: string

record product =
  p_id :: nat
  p_title :: string
  p_description :: string
  p_price :: rat
  p_category :: string
  p_condition :: string
  p_image_url :: string
  p_seller_id :: nat
  p_status :: string

record cart_row =
  c_id :: nat
  c_user_id :: nat
  c_product_id :: nat
  c_quantity :: int

record order_row =
  o_id :: nat
  o_user_id :: nat
  o_total_amount :: number
  o_status :: string
  o_customer_name :: string
  o_customer_email :: string
  o_customer_phone :: string
  o_delivery_address :: string
  o_delivery_notes :: "string option"
  o_order_number :: string

record order_item =
  oi_id :: nat
  oi_order_id :: nat
  oi_product_id :: nat
  oi_quantity :: int
  oi_price :: rat

record db =
  users :: "user_row list"
  products :: "product list"
  cart :: "cart_row list"
  orders :: "order_row list"
  order_items :: "order_item list"
  seq_products :: nat
  seq_cart :: nat
  seq_orders :: nat
  seq_order_items :: nat

text \<open>
  The responses of the routes. Each error names the HTTP status and message the route
  sends.
\<close>

datatype error =
    ValidationError     \<comment> \<open>400, a required field is missing or not valid\<close>
  | EmptyCart           \<comment> \<open>400 \<^verbatim>\<open>Cart is empty\<close>\<close>
  | Unavailable         \<comment> \<open>400 \<^verbatim>\<open>Product is not available\<close>\<close>
  | SelfPurchase        \<comment> \<open>400 \<^verbatim>\<open>You cannot add your own product to cart\<close>\<close>
  | Forbidden           \<comment> \<open>403\<close>
  | NotFound            \<comment> \<open>404\<close>
  | DatabaseError       \<comment> \<open>500 \<^verbatim>\<open>Database error\<close>, a read failed\<close>
  | WriteFailed         \<comment> \<open>500 \<^verbatim>\<open>Failed to ...\<close>, a write failed\<close>

section \<open>Request values\<close>

text \<open>
  A text field of a request body is absent or a string; \<^verbatim>\<open>!field\<close> holds of an absent
  field and of the empty string.
\<close>

definition falsy :: "string option \<Rightarrow> bool" where
  "falsy v = (case v of None \<Rightarrow> True | Some s \<Rightarrow> s = [])"

definition str :: "string option \<Rightarrow> string" where
  "str v = (case v of None \<Rightarrow> [] | Some s \<Rightarrow> s)"

section \<open>Order numbers\<close>

definition digit_char :: "nat \<Rightarrow> char" where
  "digit_char n = ''0123456789'' ! n"

fun string_of_nat :: "nat \<Rightarrow> string" where
  "string_of_nat n =
     (if n < 10 then [digit_char n]
      else string_of_nat (n div 10) @ [digit_char (n mod 10)])"

declare string_of_nat.simps [simp del]

text \<open>
  \<^verbatim>\<open>Math.random().toString(36)\<close>: the random number lies in \<open>[0, 1)\<close>, and its text in
  base 36 is \<^verbatim>\<open>0\<close> when the number is zero and otherwise \<^verbatim>\<open>0.\<close> followed by its fraction
  digits. The random number is given by these fraction digits (each below 36, none when
  the number is zero).
\<close>

definition digit36 :: "nat \<Rightarrow> char" where
  "digit36 n = ''0123456789abcdefghijklmnopqrstuvwxyz'' ! n"

definition toString36 :: "nat list \<Rightarrow> string" where
  "toString36 ds = (if ds = [] then ''0'' else ''0.'' @ map digit36 ds)"

definition substr :: "nat \<Rightarrow> nat \<Rightarrow> string \<Rightarrow> string" where
  "substr start len s = take len (drop start s)"

definition toUpperChar :: "char \<Rightarrow> char" where
  "toUpperChar c =
     (case map_of (zip ''abcdefghijklmnopqrstuvwxyz'' ''ABCDEFGHIJKLMNOPQRSTUVWXYZ'') c of
        None \<Rightarrow> c
      | Some u \<Rightarrow> u)"

definition toUpperCase :: "string \<Rightarrow> string" where
  "toUpperCase s = map toUpperChar s"

definition random_suffix :: "nat list \<Rightarrow> string" where
  "random_suffix ds = toUpperCase (substr 2 5 (toString36 ds))"

definition orderNumber_of :: "nat \<Rightarrow> nat list \<Rightarrow> string" where
  "orderNumber_of now ds = ''ECO-'' @ string_of_nat now @ ''-'' @ random_suffix ds"

section \<open>Checkout: \<^verbatim>\<open>POST /checkout\<close>\<close>

record checkout_body =
  fullName :: "string option"
  email :: "string option"
  phone :: "string option"
  deliveryAddress :: "string option"
  deliveryNotes :: "string option"

text \<open>
  What a checkout call takes from outside the database: the clock, the random number, and
  for each database statement whether it fails (the \<^verbatim>\<open>err\<close> argument of its callback).
  \<open>item_insert_err i\<close> is the outcome of the insert of the \<open>i\<close>-th order line.
\<close>

record checkout_env =
  now :: nat
  random_digits :: "nat list"
  cart_read_err :: bool
  order_insert_err :: bool
  item_insert_err :: "nat \<Rightarrow> bool"
  sold_update_err :: bool
  cart_clear_err :: bool

record receipt =
  r_orderId :: nat
  r_orderNumber :: string
  r_totalAmount :: number
  r_customerName :: string
  r_deliveryAddress :: string
  r_itemCount :: nat

text \<open>
  The cart query: the caller's cart rows joined with the products that are
  \<^verbatim>\<open>available\<close>.
\<close>

definition cartQuery :: "db \<Rightarrow> nat \<Rightarrow> (cart_row \<times> product) list" where
  "cartQuery d userId =
     [(c, p). c \<leftarrow> cart d, p \<leftarrow> products d,
              c_product_id c = p_id p \<and> c_user_id c = userId \<and> p_status p = ''available'']"

definition line_amount :: "cart_row \<times> product \<Rightarrow> number" where
  "line_amount item = js_mul (fl (p_price (snd item))) (fl (of_int (c_quantity (fst item))))"

definition cart_total :: "(cart_row \<times> product) list \<Rightarrow> number" where
  "cart_total cartItems = foldl (\<lambda>sum item. js_add sum (line_amount item)) (Fin 0) cartItems"

definition insert_order :: "nat \<Rightarrow> number \<Rightarrow> checkout_body \<Rightarrow> string \<Rightarrow> db \<Rightarrow> db" where
  "insert_order userId totalAmount b orderNumber d =
     d\<lparr>orders := orders d @
          [\<lparr>o_id = seq_orders d, o_user_id = userId, o_total_amount = totalAmount,
            o_status = ''completed'', o_customer_name = str (fullName b),
            o_customer_email = str (email b), o_customer_phone = str (phone b),
            o_delivery_address = str (deliveryAddress b),
            o_delivery_notes = deliveryNotes b, o_order_number = orderNumber\<rparr>],
       seq_orders := Suc (seq_orders d)\<rparr>"

definition insert_order_item :: "nat \<Rightarrow> cart_row \<times> product \<Rightarrow> db \<Rightarrow> db" where
  "insert_order_item orderId item d =
     d\<lparr>order_items := order_items d @
          [\<lparr>oi_id = seq_order_items d, oi_order_id = orderId,
            oi_product_id = c_product_id (fst item),
            oi_quantity = c_quantity (fst item), oi_price = p_price (snd item)\<rparr>],
       seq_order_items := Suc (seq_order_items d)\<rparr>"

text \<open>
  The \<^verbatim>\<open>forEach\<close> over the cart items: an insert that fails is logged and counted as
  processed like one that succeeds.
\<close>

fun insert_order_items ::
  "(nat \<Rightarrow> bool) \<Rightarrow> nat \<Rightarrow> nat \<Rightarrow> (cart_row \<times> product) list \<Rightarrow> db \<Rightarrow> db" where
  "insert_order_items err orderId i [] d = d"
| "insert_order_items err orderId i (item # rest) d =
     insert_order_items err orderId (Suc i) rest
       (if err i then d else insert_order_item orderId item d)"

definition mark_sold :: "nat list \<Rightarrow> db \<Rightarrow> db" where
  "mark_sold productIds d =
     d\<lparr>products := map (\<lambda>p. if p_id p \<in> set productIds then p\<lparr>p_status := ''sold''\<rparr> else p)
                       (products d)\<rparr>"

definition clear_cart :: "nat \<Rightarrow> db \<Rightarrow> db" where
  "clear_cart userId d = d\<lparr>cart := filter (\<lambda>c. c_user_id c \<noteq> userId) (cart d)\<rparr>"

definition checkout :: "checkout_env \<Rightarrow> db \<Rightarrow> nat \<Rightarrow> checkout_body \<Rightarrow> (error + receipt) \<times> db" where
  "checkout env d userId b =
     (if falsy (fullName b) \<or> falsy (email b) \<or> falsy (phone b) \<or> falsy (deliveryAddress b)
      then (Inl ValidationError, d)
      else if cart_read_err env then (Inl DatabaseError, d)
      else
        let cartItems = cartQuery d userId in
        if length cartItems = 0 then (Inl EmptyCart, d)
        else
          let totalAmount = cart_total cartItems;
              orderNumber = orderNumber_of (now env) (random_digits env)
          in
          if order_insert_err env then (Inl WriteFailed, d)
          else
            let orderId = seq_orders d;
                d1 = insert_order userId totalAmount b orderNumber d;
                d2 = insert_order_items (item_insert_err env) orderId 0 cartItems d1;
                productIds = map (\<lambda>item. c_product_id (fst item)) cartItems;
                d3 = (if sold_update_err env then d2 else mark_sold productIds d2);
                d4 = (if cart_clear_err env then d3 else clear_cart userId d3)
            in (Inr \<lparr>r_orderId = orderId, r_orderNumber = orderNumber,
                      r_totalAmount = toFixed2 totalAmount,
                      r_customerName = str (fullName b),
                      r_deliveryAddress = str (deliveryAddress b),
                      r_itemCount = length cartItems\<rparr>, d4))"

section \<open>Cart routes\<close>

text \<open>
  The outcome of the database statements of a route other than checkout, in the order the
  route issues them: up to two reads, then one write.
\<close>

record faults =
  first_read_err :: bool
  second_read_err :: bool
  write_err :: bool

text \<open>
  \<^verbatim>\<open>POST /add\<close>. The product id of the body is absent or a number (\<^verbatim>\<open>!productId\<close> holds
  of an absent id and of 0); the quantity is absent (then 1) or an integer that a double
  holds exactly and that \<^verbatim>\<open>parseInt\<close> returns as it is (its magnitude is below
  \<^verbatim>\<open>1e21\<close>).
\<close>

definition addItem ::
  "faults \<Rightarrow> db \<Rightarrow> nat \<Rightarrow> nat option \<Rightarrow> int option \<Rightarrow> (error + string) \<times> db" where
  "addItem f d userId productId quantity =
     (let q = (case quantity of None \<Rightarrow> 1 | Some q \<Rightarrow> q) in
      case productId of
        None \<Rightarrow> (Inl ValidationError, d)
      | Some pid \<Rightarrow>
          if pid = 0 then (Inl ValidationError, d)
          else if first_read_err f then (Inl DatabaseError, d)
          else
            (case find (\<lambda>p. p_id p = pid) (products d) of
               None \<Rightarrow> (Inl NotFound, d)
             | Some product \<Rightarrow>
                 if p_status product \<noteq> ''available'' then (Inl Unavailable, d)
                 else if p_seller_id product = userId then (Inl SelfPurchase, d)
                 else if second_read_err f then (Inl DatabaseError, d)
                 else
                   (case find (\<lambda>c. c_user_id c = userId \<and> c_product_id c = pid) (cart d) of
                      Some existingItem \<Rightarrow>
                        if write_err f then (Inl WriteFailed, d)
                        else (Inr ''Cart updated successfully'',
                              d\<lparr>cart := map (\<lambda>c. if c_id c = c_id existingItem
                                                   then c\<lparr>c_quantity := c_quantity existingItem + q\<rparr>
                                                   else c) (cart d)\<rparr>)
                    | None \<Rightarrow>
                        if write_err f then (Inl WriteFailed, d)
                        else (Inr ''Item added to cart successfully'',
                              d\<lparr>cart := cart d @
                                   [\<lparr>c_id = seq_cart d, c_user_id = userId,
                                     c_product_id = pid, c_quantity = q\<rparr>],
                                seq_cart := Suc (seq_cart d)\<rparr>))))"

text \<open>
  \<^verbatim>\<open>PUT /update/:itemId\<close>. The quantity of the body is absent or an integer, as for
  \<^verbatim>\<open>POST /add\<close>.
\<close>

definition updateQuantity ::
  "faults \<Rightarrow> db \<Rightarrow> nat \<Rightarrow> nat \<Rightarrow> int option \<Rightarrow> (error + string) \<times> db" where
  "updateQuantity f d userId itemId quantity =
     (case quantity of
        None \<Rightarrow> (Inl ValidationError, d)
      | Some q \<Rightarrow>
          if q = 0 \<or> q < 1 then (Inl ValidationError, d)
          else if first_read_err f then (Inl DatabaseError, d)
          else
            (case find (\<lambda>c. c_id c = itemId \<and> c_user_id c = userId) (cart d) of
               None \<Rightarrow> (Inl NotFound, d)
             | Some cartItem \<Rightarrow>
                 if write_err f then (Inl WriteFailed, d)
                 else (Inr ''Cart item updated successfully'',
                       d\<lparr>cart := map (\<lambda>c. if c_id c = itemId then c\<lparr>c_quantity := q\<rparr> else c)
                                     (cart d)\<rparr>)))"

text \<open>\<^verbatim>\<open>DELETE /remove/:itemId\<close>.\<close>

definition removeItem :: "faults \<Rightarrow> db \<Rightarrow> nat \<Rightarrow> nat \<Rightarrow> (error + string) \<times> db" where
  "removeItem f d userId itemId =
     (if first_read_err f then (Inl DatabaseError, d)
      else
        (case find (\<lambda>c. c_id c = itemId \<and> c_user_id c = userId) (cart d) of
           None \<Rightarrow> (Inl NotFound, d)
         | Some cartItem \<Rightarrow>
             if write_err f then (Inl WriteFailed, d)
             else (Inr ''Item removed from cart successfully'',
                   d\<lparr>cart := filter (\<lambda>c. c_id c \<noteq> itemId) (cart d)\<rparr>)))"

text \<open>\<^verbatim>\<open>DELETE /clear\<close>.\<close>

definition clearAll :: "faults \<Rightarrow> db \<Rightarrow> nat \<Rightarrow> (error + string) \<times> db" where
  "clearAll f d userId =
     (if write_err f then (Inl WriteFailed, d)
      else (Inr ''Cart cleared successfully'', clear_cart userId d))"

section \<open>Order detail: \<^verbatim>\<open>GET /:orderId\<close>\<close>

definition itemsQuery :: "db \<Rightarrow> nat \<Rightarrow> (order_item \<times> product \<times> user_row) list" where
  "itemsQuery d orderId =
     [(oi, p, u). oi \<leftarrow> order_items d, p \<leftarrow> products d, u \<leftarrow> users d,
                  oi_product_id oi = p_id p \<and> p_seller_id p = u_id u \<and> oi_order_id oi = orderId]"

definition order_detail ::
  "faults \<Rightarrow> db \<Rightarrow> nat \<Rightarrow> nat \<Rightarrow>
     error + (order_row \<times> (order_item \<times> product \<times> user_row) list)" where
  "order_detail f d userId orderId =
     (if first_read_err f then Inl DatabaseError
      else
        (case find (\<lambda>r. o_id r = orderId \<and> o_user_id r = userId) (orders d) of
           None \<Rightarrow> Inl NotFound
         | Some order \<Rightarrow>
             if second_read_err f then Inl DatabaseError
             else Inr (order, itemsQuery d orderId)))"

section \<open>Product routes\<close>

text \<open>
  \<^verbatim>\<open>POST /\<close> (create). The price of the body is absent or a number; \<^verbatim>\<open>!price\<close> holds of an
  absent price and of 0. A new row takes the column default \<^verbatim>\<open>'available'\<close> as status.
\<close>

record new_product_body =
  nb_title :: "string option"
  nb_description :: "string option"
  nb_price :: "rat option"
  nb_category :: "string option"
  nb_condition :: "string option"
  nb_imageUrl :: "string option"

definition product_create ::
  "faults \<Rightarrow> db \<Rightarrow> nat \<Rightarrow> string \<Rightarrow> new_product_body \<Rightarrow> (error + nat) \<times> db" where
  "product_create f d sellerId role b =
     (case nb_price b of
        None \<Rightarrow> (Inl ValidationError, d)
      | Some price \<Rightarrow>
          if falsy (nb_title b) \<or> price = 0 \<or> falsy (nb_category b) then (Inl ValidationError, d)
          else if role \<noteq> ''seller'' \<and> role \<noteq> ''admin'' then (Inl Forbidden, d)
          else if write_err f then (Inl WriteFailed, d)
          else (Inr (seq_products d),
                d\<lparr>products := products d @
                     [\<lparr>p_id = seq_products d, p_title = str (nb_title b),
                       p_description = str (nb_description b), p_price = price,
                       p_category = str (nb_category b),
                       p_condition = (if falsy (nb_condition b) then ''Good''
                                      else str (nb_condition b)),
                       p_image_url = str (nb_imageUrl b), p_seller_id = sellerId,
                       p_status = ''available''\<rparr>],
                  seq_products := Suc (seq_products d)\<rparr>))"

text \<open>
  \<^verbatim>\<open>PUT /:id\<close> (update). Every column of the row is overwritten from the body
  (\<open>set_columns\<close> is the \<^verbatim>\<open>SET\<close> clause of the statement); a body without a status
  writes \<^verbatim>\<open>'available'\<close>.
\<close>

record product_body =
  ub_title :: string
  ub_description :: string
  ub_price :: rat
  ub_category :: string
  ub_condition :: string
  ub_imageUrl :: string
  ub_status :: "string option"

definition set_columns :: "product_body \<Rightarrow> product \<Rightarrow> product" where
  "set_columns b p =
     p\<lparr>p_title := ub_title b,
       p_description := ub_description b,
       p_price := ub_price b,
       p_category := ub_category b,
       p_condition := ub_condition b,
       p_image_url := ub_imageUrl b,
       p_status := (if falsy (ub_status b) then ''available'' else str (ub_status b))\<rparr>"

definition product_update ::
  "faults \<Rightarrow> db \<Rightarrow> nat \<Rightarrow> string \<Rightarrow> nat \<Rightarrow> product_body \<Rightarrow> (error + string) \<times> db" where
  "product_update f d userId role productId b =
     (if first_read_err f then (Inl DatabaseError, d)
      else
        (case find (\<lambda>p. p_id p = productId) (products d) of
           None \<Rightarrow> (Inl NotFound, d)
         | Some product \<Rightarrow>
             if p_seller_id product \<noteq> userId \<and> role \<noteq> ''admin'' then (Inl Forbidden, d)
             else if write_err f then (Inl WriteFailed, d)
             else (Inr ''Product updated successfully'',
                   d\<lparr>products :=
                        map (\<lambda>p. if p_id p = productId then set_columns b p else p)
                          (products d)\<rparr>)))"

section \<open>Sequences of requests\<close>

datatype request =
    CartAdd faults nat "nat option" "int option"
  | CartUpdate faults nat nat "int option"
  | CartRemove faults nat nat
  | CartClear faults nat
  | Checkout checkout_env nat checkout_body
  | ProductCreate faults nat string new_product_body
  | ProductUpdate faults nat string nat product_body

fun handle :: "request \<Rightarrow> db \<Rightarrow> db" where
  "handle (CartAdd f userId productId quantity) d = snd (addItem f d userId productId quantity)"
| "handle (CartUpdate f userId itemId quantity) d = snd (updateQuantity f d userId itemId quantity)"
| "handle (CartRemove f userId itemId) d = snd (removeItem f d userId itemId)"
| "handle (CartClear f userId) d = snd (clearAll f d userId)"
| "handle (Checkout env userId b) d = snd (checkout env d userId b)"
| "handle (ProductCreate f sellerId role b) d = snd (product_create f d sellerId role b)"
| "handle (ProductUpdate f userId role productId b) d =
     snd (product_update f d userId role productId b)"

definition run :: "request list \<Rightarrow> db \<Rightarrow> db" where
  "run rs d = foldl (\<lambda>s r. handle r s) d rs"

section \<open>Concrete states and requests\<close>

definition empty_db :: db where
  "empty_db = \<lparr>users = [], products = [], cart = [], orders = [], order_items = [],
               seq_products = 1, seq_cart = 1, seq_orders = 1, seq_order_items = 1\<rparr>"

definition ok :: faults where
  "ok = \<lparr>first_read_err = False, second_read_err = False, write_err = False\<rparr>"

definition no_faults :: checkout_env where
  "no_faults = \<lparr>now = 1700000000000, random_digits = [18, 3, 35, 0, 7, 20, 11],
               cart_read_err = False, order_insert_err = False,
               item_insert_err = (\<lambda>i. False), sold_update_err = False,
               cart_clear_err = False\<rparr>"

definition body_no_address :: checkout_body where
  "body_no_address = \<lparr>fullName = Some ''Ann'', email = Some ''ann@example.org'',
                      phone = Some ''555'', deliveryAddress = None, deliveryNotes = None\<rparr>"

definition body_ann :: checkout_body where
  "body_ann = \<lparr>fullName = Some ''Ann'', email = Some ''ann@example.org'',
               phone = Some ''555'', deliveryAddress = Some ''1 Main St'',
               deliveryNotes = None\<rparr>"

definition lamp :: product where
  "lamp = \<lparr>p_id = 1, p_title = ''Lamp'', p_description = '''', p_price = 10,
           p_category = ''Furniture'', p_condition = ''Good'', p_image_url = '''',
           p_seller_id = 1, p_status = ''available''\<rparr>"

text \<open>User 7 has one cart line, for the lamp.\<close>

definition db_one :: db where
  "db_one = empty_db\<lparr>products := [lamp],
               cart := [\<lparr>c_id = 1, c_user_id = 7, c_product_id = 1, c_quantity = 1\<rparr>],
               seq_products := 2, seq_cart := 2\<rparr>"

text \<open>The same, with the lamp already sold.\<close>

definition db_sold :: db where
  "db_sold = db_one\<lparr>products := [lamp\<lparr>p_status := ''sold''\<rparr>]\<rparr>"

text \<open>A checkout environment whose random number is 0.5, in base 36 \<^verbatim>\<open>0.i\<close>.\<close>

definition half :: checkout_env where
  "half = no_faults\<lparr>random_digits := [18]\<rparr>"

definition upper_alnum :: "char \<Rightarrow> bool" where
  "upper_alnum c = (c \<in> set ''0123456789ABCDEFGHIJKLMNOPQRSTUVWXYZ'')"

definition is_digit :: "char \<Rightarrow> bool" where
  "is_digit c = (c \<in> set ''0123456789'')"

text \<open>Two orders: order 1 of user 7 and order 2 of user 8.\<close>

definition order_of :: "nat \<Rightarrow> nat \<Rightarrow> order_row" where
  "order_of i u = \<lparr>o_id = i, o_user_id = u, o_total_amount = Fin 10, o_status = ''completed'',
                  o_customer_name = ''Ann'', o_customer_email = ''ann@example.org'',
                  o_customer_phone = ''555'', o_delivery_address = ''1 Main St'',
                  o_delivery_notes = None, o_order_number = ''ECO-1700000000000-I3Z07''\<rparr>"

definition db_orders :: db where
  "db_orders = empty_db\<lparr>orders := [order_of 1 7, order_of 2 8], seq_orders := 3\<rparr>"

section \<open>Order lines and their totals\<close>

text \<open>
  \<open>order_lines d i\<close> are the persisted lines of order \<open>i\<close> and \<open>lines_total\<close> is the sum
  of price times quantity over them, as JavaScript adds it up from 0 in the order of the
  lines. \<open>line_key\<close> is a line without its own row id, and
  \<open>row_of i item\<close> is the line that the insert statement writes for a cart item.
  \<open>kept err i items\<close> are the cart items whose insert did not fail, the first item having
  index \<open>i\<close>.
\<close>

fun kept :: "(nat \<Rightarrow> bool) \<Rightarrow> nat \<Rightarrow> 'a list \<Rightarrow> 'a list" where
  "kept err i [] = []"
| "kept err i (x # xs) = (if err i then kept err (Suc i) xs else x # kept err (Suc i) xs)"

definition line_key :: "order_item \<Rightarrow> nat \<times> nat \<times> int \<times> rat" where
  "line_key l = (oi_order_id l, oi_product_id l, oi_quantity l, oi_price l)"

definition row_of :: "nat \<Rightarrow> cart_row \<times> product \<Rightarrow> nat \<times> nat \<times> int \<times> rat" where
  "row_of orderId item =
     (orderId, c_product_id (fst item), c_quantity (fst item), p_price (snd item))"

definition order_lines :: "db \<Rightarrow> nat \<Rightarrow> order_item list" where
  "order_lines d orderId = filter (\<lambda>l. oi_order_id l = orderId) (order_items d)"

definition lines_total :: "order_item list \<Rightarrow> number" where
  "lines_total ls =
     foldl (\<lambda>sum l. js_add sum (js_mul (fl (oi_price l)) (fl (of_int (oi_quantity l)))))
       (Fin 0) ls"

definition key_amount :: "nat \<times> nat \<times> int \<times> rat \<Rightarrow> number" where
  "key_amount k = js_mul (fl (snd (snd (snd k)))) (fl (of_int (fst (snd (snd k)))))"

text \<open>A checkout in which every order-line insert fails.\<close>

definition fail_lines :: checkout_env where
  "fail_lines = no_faults\<lparr>item_insert_err := (\<lambda>i. True)\<rparr>"

text \<open>The scenario of the specification: a chair at 89.99 and two books at 20.00.\<close>

definition chair :: product where
  "chair = \<lparr>p_id = 1, p_title = ''Chair'', p_description = '''', p_price = 8999 / 100,
            p_category = ''Furniture'', p_condition = ''Good'', p_image_url = '''',
            p_seller_id = 1, p_status = ''available''\<rparr>"

definition book :: product where
  "book = \<lparr>p_id = 2, p_title = ''Book'', p_description = '''', p_price = 20,
           p_category = ''Books'', p_condition = ''Good'', p_image_url = '''',
           p_seller_id = 2, p_status = ''available''\<rparr>"

definition db_two :: db where
  "db_two = empty_db\<lparr>products := [chair, book],
               cart := [\<lparr>c_id = 1, c_user_id = 7, c_product_id = 1, c_quantity = 1\<rparr>,
                        \<lparr>c_id = 2, c_user_id = 7, c_product_id = 2, c_quantity = 2\<rparr>],
               seq_products := 3, seq_cart := 3\<rparr>"

definition order_ann :: "number \<Rightarrow> order_row" where
  "order_ann amount = \<lparr>o_id = 1, o_user_id = 7, o_total_amount = amount, o_status = ''completed'',
                  o_customer_name = ''Ann'', o_customer_email = ''ann@example.org'',
                  o_customer_phone = ''555'', o_delivery_address = ''1 Main St'',
                  o_delivery_notes = None, o_order_number = ''ECO-1700000000000-I3Z07''\<rparr>"

definition receipt_ann :: "number \<Rightarrow> nat \<Rightarrow> receipt" where
  "receipt_ann amount n = \<lparr>r_orderId = 1, r_orderNumber = ''ECO-1700000000000-I3Z07'',
             r_totalAmount = amount, r_customerName = ''Ann'',
             r_deliveryAddress = ''1 Main St'', r_itemCount = n\<rparr>"

text \<open>
  User 7 has one cart line, for a pin priced 0.125; and the state after its checkout.
\<close>

definition pin :: product where
  "pin = \<lparr>p_id = 1, p_title = ''Pin'', p_description = '''', p_price = 1 / 8,
          p_category = ''Accessories'', p_condition = ''Good'', p_image_url = '''',
          p_seller_id = 1, p_status = ''available''\<rparr>"

definition db_pin :: db where
  "db_pin = empty_db\<lparr>products := [pin],
               cart := [\<lparr>c_id = 1, c_user_id = 7, c_product_id = 1, c_quantity = 1\<rparr>],
               seq_products := 2, seq_cart := 2\<rparr>"

definition db_pin_after :: db where
  "db_pin_after =
     db_pin\<lparr>products := [pin\<lparr>p_status := ''sold''\<rparr>], cart := [],
            orders := [order_ann (Fin (1 / 8))],
            order_items := [\<lparr>oi_id = 1, oi_order_id = 1, oi_product_id = 1, oi_quantity = 1,
                              oi_price = 1 / 8\<rparr>],
            seq_orders := 2, seq_order_items := 2\<rparr>"

text \<open>The state after the checkout of \<open>db_one\<close> whose line insert failed.\<close>

definition db_lost :: db where
  "db_lost = db_one\<lparr>products := [lamp\<lparr>p_status := ''sold''\<rparr>], cart := [],
                    orders := [order_ann (Fin 10)], seq_orders := 2\<rparr>"

text \<open>The state after the checkout of \<open>db_two\<close>.\<close>

definition db_two_after :: db where
  "db_two_after =
     db_two\<lparr>products := [chair\<lparr>p_status := ''sold''\<rparr>, book\<lparr>p_status := ''sold''\<rparr>],
            cart := [],
            orders := [order_ann (fl (12999 / 100))],
            order_items := [\<lparr>oi_id = 1, oi_order_id = 1, oi_product_id = 1, oi_quantity = 1,
                              oi_price = 8999 / 100\<rparr>,
                            \<lparr>oi_id = 2, oi_order_id = 1, oi_product_id = 2, oi_quantity = 2,
                              oi_price = 20\<rparr>],
            seq_orders := 2, seq_order_items := 3\<rparr>"

text \<open>Every order has at least one order line.\<close>

definition orders_have_lines :: "db \<Rightarrow> bool" where
  "orders_have_lines d = (\<forall>r\<in>set (orders d). \<exists>l\<in>set (order_items d). oi_order_id l = o_id r)"

text \<open>A checkout in which the insert of the order header fails.\<close>

definition fail_header :: checkout_env where
  "fail_header = no_faults\<lparr>order_insert_err := True\<rparr>"

text \<open>A product update that changes the price of the chair to 1.\<close>

definition cheaper :: product_body where
  "cheaper = \<lparr>ub_title = ''Chair'', ub_description = '''', ub_price = 1,
              ub_category = ''Furniture'', ub_condition = ''Good'', ub_imageUrl = '''',
              ub_status = Some ''sold''\<rparr>"

section \<open>Selling a product once\<close>






















section \<open>Validation comes first\<close>

text \<open>
  C5. A checkout whose body lacks one of \<^verbatim>\<open>fullName\<close>, \<^verbatim>\<open>email\<close>, \<^verbatim>\<open>phone\<close>,
  \<^verbatim>\<open>deliveryAddress\<close> answers with the validation error and returns the database as it
  was (cart, products and orders included). The answer is the same for every database
  and every outcome of the database statements, so nothing was read to produce it.
\<close>

theorem checkout_missing_field:
  assumes "fullName b = None \<or> email b = None \<or> phone b = None \<or> deliveryAddress b = None"
  shows "checkout env d userId b = (Inl ValidationError, d)
         \<and> (\<forall>env' d'. fst (checkout env' d' userId b) = Inl ValidationError)"
  using assms by (auto simp: checkout_def falsy_def)

theorem checkout_missing_field_witness:
  "deliveryAddress body_no_address = None
   \<and> checkout no_faults empty_db 7 body_no_address = (Inl ValidationError, empty_db)"
  using checkout_missing_field [of body_no_address no_faults empty_db 7]
  by (simp add: body_no_address_def)

lemma set_cartQuery:
  "set (cartQuery d userId) =
     {(c, p). c \<in> set (cart d) \<and> p \<in> set (products d) \<and> c_product_id c = p_id p
              \<and> c_user_id c = userId \<and> p_status p = ''available''}"
  unfolding cartQuery_def by auto

lemma cartQuery_empty_iff:
  "cartQuery d userId = [] \<longleftrightarrow>
     (\<forall>c\<in>set (cart d). c_user_id c = userId \<longrightarrow>
        (\<forall>p\<in>set (products d). p_id p = c_product_id c \<longrightarrow> p_status p \<noteq> ''available''))"
proof -
  have "cartQuery d userId = [] \<longleftrightarrow> set (cartQuery d userId) = {}" by simp
  also have "\<dots> \<longleftrightarrow> (\<forall>c\<in>set (cart d). c_user_id c = userId \<longrightarrow>
        (\<forall>p\<in>set (products d). p_id p = c_product_id c \<longrightarrow> p_status p \<noteq> ''available''))"
    unfolding set_cartQuery by auto
  finally show ?thesis .
qed

section \<open>The empty cart\<close>

text \<open>
  C4, amended. When every cart line of the caller references no available product (the
  caller has no line at all, or each line's product is not \<^verbatim>\<open>available\<close>), checkout
  returns an error and the database as it was, so no Order is persisted. The error is
  \<^verbatim>\<open>Cart is empty\<close> for a request that has its four required fields and whose cart
  query did not fail.
\<close>

theorem checkout_empty_cart:
  assumes "\<forall>c\<in>set (cart d). c_user_id c = userId \<longrightarrow>
             (\<forall>p\<in>set (products d). p_id p = c_product_id c \<longrightarrow> p_status p \<noteq> ''available'')"
  shows "snd (checkout env d userId b) = d
         \<and> (\<exists>e. fst (checkout env d userId b) = Inl e)
         \<and> (\<not> falsy (fullName b) \<and> \<not> falsy (email b) \<and> \<not> falsy (phone b)
              \<and> \<not> falsy (deliveryAddress b) \<and> \<not> cart_read_err env
             \<longrightarrow> checkout env d userId b = (Inl EmptyCart, d))"
proof -
  have "cartQuery d userId = []" using assms by (simp add: cartQuery_empty_iff)
  then show ?thesis by (simp add: checkout_def)
qed

theorem checkout_empty_cart_witness:
  "checkout no_faults db_sold 7 body_ann = (Inl EmptyCart, db_sold)
   \<and> checkout no_faults empty_db 7 body_ann = (Inl EmptyCart, empty_db)"
proof -
  have 1: "checkout no_faults db_sold 7 body_ann = (Inl EmptyCart, db_sold)"
    using checkout_empty_cart [of db_sold 7 no_faults body_ann]
    by (simp add: db_sold_def db_one_def lamp_def empty_db_def no_faults_def body_ann_def falsy_def)
  have 2: "checkout no_faults empty_db 7 body_ann = (Inl EmptyCart, empty_db)"
    using checkout_empty_cart [of empty_db 7 no_faults body_ann]
    by (simp add: empty_db_def no_faults_def body_ann_def falsy_def)
  from 1 2 show ?thesis by simp
qed

text \<open>
  C4 as stated fails: with a cart whose only line is for a sold product and a body
  without a delivery address, checkout answers with the validation error, not with
  \<^verbatim>\<open>Cart is empty\<close>.
\<close>

theorem checkout_empty_cart_counterexample:
  "cartQuery db_sold 7 = []
   \<and> checkout no_faults db_sold 7 body_no_address = (Inl ValidationError, db_sold)"
proof -
  have "cartQuery db_sold 7 = []"
    by (simp add: cartQuery_def db_sold_def db_one_def lamp_def empty_db_def)
  moreover have "checkout no_faults db_sold 7 body_no_address = (Inl ValidationError, db_sold)"
    by (simp add: checkout_def body_no_address_def falsy_def)
  ultimately show ?thesis by simp
qed

section \<open>Cart lines\<close>

text \<open>
  C8, amended. \<^verbatim>\<open>PUT /update/:itemId\<close> with a quantity that is absent, zero or below 1
  is rejected with the validation error (400 \<^verbatim>\<open>Valid quantity is required\<close>) and the
  database, the cart line included, stays as it was.
\<close>

theorem updateQuantity_below_one:
  assumes "quantity = None \<or> (\<exists>q. quantity = Some q \<and> q < 1)"
  shows "updateQuantity f d userId itemId quantity = (Inl ValidationError, d)"
  using assms by (auto simp: updateQuantity_def)

theorem updateQuantity_below_one_witness:
  "updateQuantity ok db_one 7 1 (Some (- 3)) = (Inl ValidationError, db_one)"
  using updateQuantity_below_one [of "Some (- 3)" ok db_one 7 1] by simp

text \<open>
  C8 as stated fails: quantity 0 on the caller's own line is an error, and the line is
  still in the cart.
\<close>

theorem updateQuantity_zero_counterexample:
  "updateQuantity ok db_one 7 1 (Some 0) = (Inl ValidationError, db_one)
   \<and> cart db_one = [\<lparr>c_id = 1, c_user_id = 7, c_product_id = 1, c_quantity = 1\<rparr>]"
  by (simp add: updateQuantity_def db_one_def empty_db_def)

lemma find_SomeD: "find P xs = Some x \<Longrightarrow> P x \<and> x \<in> set xs"
  by (induction xs) (auto split: if_splits)

text \<open>
  C9, amended. Removing a line that the caller does not have is answered with
  \<^verbatim>\<open>404 Cart item not found\<close> and changes nothing; hence a removal that succeeded,
  repeated, is answered with 404. Clearing succeeds whenever its delete statement does;
  clearing twice leaves the cart as clearing once, and clearing a cart without lines of the
  caller leaves the database as it was.
\<close>

theorem removeItem_clearAll:
  "(find (\<lambda>c. c_id c = itemId \<and> c_user_id c = userId) (cart d) = None \<and> \<not> first_read_err f
      \<longrightarrow> removeItem f d userId itemId = (Inl NotFound, d))
   \<and> (removeItem f d userId itemId = (Inr m, d') \<and> \<not> first_read_err f'
      \<longrightarrow> removeItem f' d' userId itemId = (Inl NotFound, d'))
   \<and> (\<not> write_err f
      \<longrightarrow> clearAll f d userId = (Inr ''Cart cleared successfully'', clear_cart userId d)
          \<and> clearAll f (clear_cart userId d) userId
              = (Inr ''Cart cleared successfully'', clear_cart userId d))
   \<and> (\<not> write_err f \<and> (\<forall>c\<in>set (cart d). c_user_id c \<noteq> userId)
      \<longrightarrow> clearAll f d userId = (Inr ''Cart cleared successfully'', d))"
proof (intro conjI impI)
  assume "find (\<lambda>c. c_id c = itemId \<and> c_user_id c = userId) (cart d) = None \<and> \<not> first_read_err f"
  then show "removeItem f d userId itemId = (Inl NotFound, d)"
    by (simp add: removeItem_def)
next
  assume a: "removeItem f d userId itemId = (Inr m, d') \<and> \<not> first_read_err f'"
  then have "cart d' = filter (\<lambda>c. c_id c \<noteq> itemId) (cart d)"
    by (auto simp: removeItem_def split: if_splits option.splits)
  then have "find (\<lambda>c. c_id c = itemId \<and> c_user_id c = userId) (cart d') = None"
    by (simp add: find_None_iff)
  with a show "removeItem f' d' userId itemId = (Inl NotFound, d')"
    by (simp add: removeItem_def)
next
  assume "\<not> write_err f"
  then show "clearAll f d userId = (Inr ''Cart cleared successfully'', clear_cart userId d)"
    by (simp add: clearAll_def)
next
  assume "\<not> write_err f"
  then show "clearAll f (clear_cart userId d) userId
              = (Inr ''Cart cleared successfully'', clear_cart userId d)"
    by (simp add: clearAll_def clear_cart_def)
next
  assume a: "\<not> write_err f \<and> (\<forall>c\<in>set (cart d). c_user_id c \<noteq> userId)"
  then have "filter (\<lambda>c. c_user_id c \<noteq> userId) (cart d) = cart d"
    by (simp add: filter_id_conv)
  with a show "clearAll f d userId = (Inr ''Cart cleared successfully'', d)"
    by (simp add: clearAll_def clear_cart_def)
qed

text \<open>C9 as stated fails: removing a line that does not exist is an error.\<close>

theorem removeItem_missing_counterexample:
  "removeItem ok empty_db 7 1 = (Inl NotFound, empty_db)"
  by (simp add: removeItem_def ok_def empty_db_def)

theorem removeItem_clearAll_witness:
  "removeItem ok empty_db 7 1 = (Inl NotFound, empty_db)
   \<and> removeItem ok (db_one\<lparr>cart := []\<rparr>) 7 1 = (Inl NotFound, db_one\<lparr>cart := []\<rparr>)
   \<and> clearAll ok empty_db 7 = (Inr ''Cart cleared successfully'', empty_db)"
proof -
  note inst1 = removeItem_clearAll
    [of 1 7 empty_db ok "''Item removed from cart successfully''" "db_one\<lparr>cart := []\<rparr>" ok]
  note inst2 = removeItem_clearAll
    [of 1 7 db_one ok "''Item removed from cart successfully''" "db_one\<lparr>cart := []\<rparr>" ok]
  have h1: "find (\<lambda>c. c_id c = 1 \<and> c_user_id c = 7) (cart empty_db) = None \<and> \<not> first_read_err ok"
    by (simp add: ok_def empty_db_def)
  have h2: "removeItem ok db_one 7 1
              = (Inr ''Item removed from cart successfully'', db_one\<lparr>cart := []\<rparr>)
            \<and> \<not> first_read_err ok"
    by (simp add: removeItem_def ok_def db_one_def empty_db_def)
  have h3: "\<not> write_err ok \<and> (\<forall>c\<in>set (cart empty_db). c_user_id c \<noteq> 7)"
    by (simp add: ok_def empty_db_def)
  from inst1 h1 have 1: "removeItem ok empty_db 7 1 = (Inl NotFound, empty_db)" by blast
  from inst2 h2 have 2: "removeItem ok (db_one\<lparr>cart := []\<rparr>) 7 1 = (Inl NotFound, db_one\<lparr>cart := []\<rparr>)"
    by blast
  from inst1 h3 have 3: "clearAll ok empty_db 7 = (Inr ''Cart cleared successfully'', empty_db)"
    by blast
  from 1 2 3 show ?thesis by blast
qed

section \<open>The order number\<close>

lemma toUpper_digits36:
  "map toUpperChar ''0123456789abcdefghijklmnopqrstuvwxyz'' = ''0123456789ABCDEFGHIJKLMNOPQRSTUVWXYZ''"
  by (simp add: toUpperChar_def)

lemma upper_alnum_digit36: "n < 36 \<Longrightarrow> upper_alnum (toUpperChar (digit36 n))"
proof -
  assume n: "n < 36"
  have "toUpperChar (digit36 n) = map toUpperChar ''0123456789abcdefghijklmnopqrstuvwxyz'' ! n"
    unfolding digit36_def using n by (intro nth_map [symmetric]) simp
  also have "\<dots> = ''0123456789ABCDEFGHIJKLMNOPQRSTUVWXYZ'' ! n"
    by (simp only: toUpper_digits36)
  finally show ?thesis
    unfolding upper_alnum_def using n by (simp only:) (intro nth_mem, simp)
qed

lemma is_digit_digit_char: "n < 10 \<Longrightarrow> is_digit (digit_char n)"
  unfolding digit_char_def is_digit_def by (intro nth_mem) simp

lemma string_of_nat_digits: "string_of_nat n \<noteq> [] \<and> (\<forall>c\<in>set (string_of_nat n). is_digit c)"
proof (induction n rule: string_of_nat.induct)
  case (1 n)
  show ?case
  proof (cases "n < 10")
    case True
    then show ?thesis using is_digit_digit_char [of n] by (simp add: string_of_nat.simps [of n])
  next
    case False
    have "n mod 10 < 10" by simp
    then have "is_digit (digit_char (n mod 10))" by (rule is_digit_digit_char)
    with False 1 show ?thesis by (simp add: string_of_nat.simps [of n])
  qed
qed

lemma random_suffix_eq: "random_suffix ds = map (\<lambda>n. toUpperChar (digit36 n)) (take 5 ds)"
  by (cases ds) (simp_all add: random_suffix_def toUpperCase_def substr_def toString36_def take_map)

lemma length_random_suffix: "length (random_suffix ds) = min 5 (length ds)"
  by (simp add: random_suffix_eq min.commute)

lemma random_suffix_upper_alnum:
  assumes "\<forall>n\<in>set ds. n < 36"
  shows "\<forall>c\<in>set (random_suffix ds). upper_alnum c"
proof -
  have "set (take 5 ds) \<subseteq> set ds" by (rule set_take_subset)
  with assms show ?thesis by (auto simp: random_suffix_eq upper_alnum_digit36)
qed

lemma checkout_receipt_number:
  "fst (checkout env d userId b) = Inr rc \<Longrightarrow>
     r_orderNumber rc = orderNumber_of (now env) (random_digits env)"
  by (auto simp: checkout_def Let_def split: if_splits)

text \<open>
  The order number of a successful checkout is \<^verbatim>\<open>ECO-\<close>, the clock's milliseconds in
  decimal, \<^verbatim>\<open>-\<close>, and a suffix of uppercase letters and digits; the suffix has five
  characters when the random number has at least five base-36 fraction digits.
\<close>

lemma order_number_shape:
  assumes "fst (checkout env d userId b) = Inr rc"
    and "\<forall>n\<in>set (random_digits env). n < 36"
    and "5 \<le> length (random_digits env)"
  shows "r_orderNumber rc
           = ''ECO-'' @ string_of_nat (now env) @ ''-'' @ random_suffix (random_digits env)
         \<and> string_of_nat (now env) \<noteq> []
         \<and> (\<forall>c\<in>set (string_of_nat (now env)). is_digit c)
         \<and> length (random_suffix (random_digits env)) = 5
         \<and> (\<forall>c\<in>set (random_suffix (random_digits env)). upper_alnum c)"
  using checkout_receipt_number [OF assms(1)] string_of_nat_digits [of "now env"]
    length_random_suffix [of "random_digits env"] random_suffix_upper_alnum [OF assms(2)]
    assms(3)
  by (simp add: orderNumber_of_def)

lemma cartQuery_db_one: "cartQuery db_one 7 = [(\<lparr>c_id = 1, c_user_id = 7, c_product_id = 1, c_quantity = 1\<rparr>, lamp)]"
  by (simp add: cartQuery_def db_one_def lamp_def empty_db_def)

lemma string_of_nat_example: "string_of_nat 1700000000000 = ''1700000000000''"
  by (simp add: string_of_nat.simps digit_char_def)

lemma random_suffix_half: "random_suffix [18] = ''I''"
  by (simp add: random_suffix_def toUpperCase_def toUpperChar_def substr_def toString36_def digit36_def)

lemma seq_orders_db_one: "seq_orders db_one = 1"
  by (simp add: db_one_def empty_db_def)

lemma total_of_10: "js_add (Fin 0) (js_mul (fl 10) (fl 1)) = Fin 10"
  by code_simp

lemma cart_total_db_one: "cart_total (cartQuery db_one 7) = Fin 10"
  by (simp add: cartQuery_db_one cart_total_def line_amount_def lamp_def total_of_10)

lemma toFixed2_10: "toFixed2 (Fin 10) = Fin 10"
  by code_simp

text \<open>
  C7. The suffix is meant to have five characters, and the code does not always produce
  them: when the random number is 0.5, which base 36 prints as \<^verbatim>\<open>0.i\<close>,
  \<^verbatim>\<open>substr(2, 5)\<close> finds one character to take, and the order number of the checkout is
  \<^verbatim>\<open>ECO-1700000000000-I\<close>.
\<close>

theorem order_number_short_suffix:
  "fst (checkout half db_one 7 body_ann)
     = Inr \<lparr>r_orderId = 1, r_orderNumber = ''ECO-1700000000000-I'', r_totalAmount = Fin 10,
            r_customerName = ''Ann'', r_deliveryAddress = ''1 Main St'', r_itemCount = 1\<rparr>"
  by (simp add: checkout_def cart_total_db_one toFixed2_10 seq_orders_db_one
      half_def no_faults_def body_ann_def falsy_def str_def orderNumber_of_def string_of_nat_example random_suffix_half Let_def)
    (simp add: cartQuery_db_one)

section \<open>Order detail\<close>

text \<open>
  C10. When the two reads of \<^verbatim>\<open>GET /:orderId\<close> do not fail, the route returns an order
  exactly when an order with this id and this owner exists, and the order returned is
  such a row, with its lines. Otherwise the answer is \<^verbatim>\<open>404 Order not found\<close>, the
  same for an id that no order has and (order ids being a primary key) for the id of an
  order of another user.
\<close>

theorem order_detail_owner_scoped:
  assumes "\<not> first_read_err f" and "\<not> second_read_err f"
  shows "(case order_detail f d userId orderId of
            Inr (x, items) \<Rightarrow>
              x \<in> set (orders d) \<and> o_id x = orderId \<and> o_user_id x = userId
              \<and> items = itemsQuery d orderId
          | Inl e \<Rightarrow>
              e = NotFound
              \<and> \<not> (\<exists>x\<in>set (orders d). o_id x = orderId \<and> o_user_id x = userId))
         \<and> (orderId \<notin> o_id ` set (orders d)
              \<longrightarrow> order_detail f d userId orderId = Inl NotFound)
         \<and> (distinct (map o_id (orders d))
              \<and> (\<exists>x\<in>set (orders d). o_id x = orderId \<and> o_user_id x \<noteq> userId)
              \<longrightarrow> order_detail f d userId orderId = Inl NotFound)"
proof (intro conjI impI)
  show "case order_detail f d userId orderId of
            Inr (x, items) \<Rightarrow>
              x \<in> set (orders d) \<and> o_id x = orderId \<and> o_user_id x = userId
              \<and> items = itemsQuery d orderId
          | Inl e \<Rightarrow>
              e = NotFound
              \<and> \<not> (\<exists>x\<in>set (orders d). o_id x = orderId \<and> o_user_id x = userId)"
  proof (cases "find (\<lambda>r. o_id r = orderId \<and> o_user_id r = userId) (orders d)")
    case None
    then have "\<not> (\<exists>x\<in>set (orders d). o_id x = orderId \<and> o_user_id x = userId)"
      by (simp add: find_None_iff)
    with None assms show ?thesis by (simp add: order_detail_def)
  next
    case (Some x)
    then have "o_id x = orderId \<and> o_user_id x = userId \<and> x \<in> set (orders d)"
      by (auto dest: find_SomeD)
    with Some assms show ?thesis by (simp add: order_detail_def)
  qed
next
  assume "orderId \<notin> o_id ` set (orders d)"
  then have "find (\<lambda>r. o_id r = orderId \<and> o_user_id r = userId) (orders d) = None"
    by (auto simp: find_None_iff)
  with assms show "order_detail f d userId orderId = Inl NotFound"
    by (simp add: order_detail_def)
next
  assume a: "distinct (map o_id (orders d))
              \<and> (\<exists>x\<in>set (orders d). o_id x = orderId \<and> o_user_id x \<noteq> userId)"
  then obtain x where x: "x \<in> set (orders d)" "o_id x = orderId" "o_user_id x \<noteq> userId"
    by blast
  have "\<not> (\<exists>y\<in>set (orders d). o_id y = orderId \<and> o_user_id y = userId)"
  proof
    assume "\<exists>y\<in>set (orders d). o_id y = orderId \<and> o_user_id y = userId"
    then obtain y where y: "y \<in> set (orders d)" "o_id y = orderId" "o_user_id y = userId"
      by blast
    from a have "inj_on o_id (set (orders d))" by (simp add: distinct_map)
    with x y have "x = y" by (auto dest: inj_onD)
    with x y show False by simp
  qed
  then have "find (\<lambda>r. o_id r = orderId \<and> o_user_id r = userId) (orders d) = None"
    by (auto simp: find_None_iff)
  with assms show "order_detail f d userId orderId = Inl NotFound"
    by (simp add: order_detail_def)
qed

theorem order_detail_owner_scoped_witness:
  "order_detail ok db_orders 7 1 = Inr (order_of 1 7, [])
   \<and> order_detail ok db_orders 7 2 = Inl NotFound
   \<and> order_detail ok db_orders 7 3 = Inl NotFound"
proof -
  have f: "\<not> first_read_err ok" "\<not> second_read_err ok" by (simp_all add: ok_def)
  have o: "orders db_orders = [order_of 1 7, order_of 2 8]"
    by (simp add: db_orders_def empty_db_def)
  have 1: "order_detail ok db_orders 7 1 = Inr (order_of 1 7, [])"
    using order_detail_owner_scoped [OF f, where d = db_orders and userId = 7 and orderId = 1]
    by (simp add: order_detail_def ok_def o order_of_def itemsQuery_def db_orders_def empty_db_def)
  have h2: "distinct (map o_id (orders db_orders))
              \<and> (\<exists>x\<in>set (orders db_orders). o_id x = 2 \<and> o_user_id x \<noteq> 7)"
    by (simp add: o order_of_def)
  have h3: "3 \<notin> o_id ` set (orders db_orders)"
    by (simp add: o order_of_def)
  from order_detail_owner_scoped [OF f, where d = db_orders and userId = 7 and orderId = 2] h2
  have 2: "order_detail ok db_orders 7 2 = Inl NotFound" by blast
  from order_detail_owner_scoped [OF f, where d = db_orders and userId = 7 and orderId = 3] h3
  have 3: "order_detail ok db_orders 7 3 = Inl NotFound" by blast
  from 1 2 3 show ?thesis by blast
qed

section \<open>What a checkout writes\<close>

lemma insert_order_items_frame:
  "users (insert_order_items err oid i items d) = users d
   \<and> products (insert_order_items err oid i items d) = products d
   \<and> cart (insert_order_items err oid i items d) = cart d
   \<and> orders (insert_order_items err oid i items d) = orders d
   \<and> seq_products (insert_order_items err oid i items d) = seq_products d
   \<and> seq_cart (insert_order_items err oid i items d) = seq_cart d
   \<and> seq_orders (insert_order_items err oid i items d) = seq_orders d"
  by (induction items arbitrary: i d) (simp_all add: insert_order_item_def)

lemma insert_order_items_lines:
  "map line_key (order_items (insert_order_items err oid i items d))
     = map line_key (order_items d) @ map (row_of oid) (kept err i items)"
  by (induction items arbitrary: i d)
    (simp_all add: insert_order_item_def line_key_def row_of_def)

lemma kept_all: "(\<forall>k<length xs. \<not> err (i + k)) \<Longrightarrow> kept err i xs = xs"
proof (induction xs arbitrary: i)
  case Nil
  then show ?case by simp
next
  case (Cons x xs)
  from Cons.prems have "\<not> err i" by force
  moreover have "\<forall>k<length xs. \<not> err (Suc i + k)"
  proof (intro allI impI)
    fix k assume "k < length xs"
    then have "Suc k < length (x # xs)" by simp
    with Cons.prems have "\<not> err (i + Suc k)" by blast
    then show "\<not> err (Suc i + k)" by simp
  qed
  ultimately show ?case using Cons.IH [of "Suc i"] by simp
qed

lemma set_kept: "set (kept err i xs) \<subseteq> set xs"
  by (induction xs arbitrary: i) auto

lemma lines_total_keys:
  "lines_total ls = foldl (\<lambda>sum k. js_add sum (key_amount k)) (Fin 0) (map line_key ls)"
  by (simp add: lines_total_def foldl_map key_amount_def line_key_def)

lemma key_amount_row: "key_amount (row_of oid item) = line_amount item"
  by (simp add: key_amount_def row_of_def line_amount_def)

lemma checkout_error: "fst (checkout env d userId b) = Inl e \<Longrightarrow> snd (checkout env d userId b) = d"
  by (auto simp: checkout_def Let_def split: if_splits)

lemma checkout_receipt:
  assumes "fst (checkout env d userId b) = Inr rc"
  shows "cartQuery d userId \<noteq> []"
    and "rc = \<lparr>r_orderId = seq_orders d,
               r_orderNumber = orderNumber_of (now env) (random_digits env),
               r_totalAmount = toFixed2 (cart_total (cartQuery d userId)),
               r_customerName = str (fullName b),
               r_deliveryAddress = str (deliveryAddress b),
               r_itemCount = length (cartQuery d userId)\<rparr>"
  using assms by (auto simp: checkout_def Let_def split: if_splits)

lemma checkout_order_items:
  assumes "fst (checkout env d userId b) = Inr rc"
  shows "map line_key (order_items (snd (checkout env d userId b)))
     = map line_key (order_items d)
       @ map (row_of (seq_orders d)) (kept (item_insert_err env) 0 (cartQuery d userId))"
  using assms
  by (auto simp: checkout_def Let_def insert_order_items_lines mark_sold_def clear_cart_def
      insert_order_def split: if_splits)

lemma checkout_orders:
  assumes "fst (checkout env d userId b) = Inr rc"
  shows "orders (snd (checkout env d userId b))
     = orders (insert_order userId (cart_total (cartQuery d userId)) b
                 (orderNumber_of (now env) (random_digits env)) d)"
  using assms
  by (auto simp: checkout_def Let_def insert_order_items_frame mark_sold_def clear_cart_def
      split: if_splits)

lemma checkout_products:
  assumes "fst (checkout env d userId b) = Inr rc"
  shows "products (snd (checkout env d userId b))
     = (if sold_update_err env then products d
        else map (\<lambda>p. if p_id p \<in> c_product_id ` fst ` set (cartQuery d userId)
                       then p\<lparr>p_status := ''sold''\<rparr> else p) (products d))"
  using assms
  by (auto simp: checkout_def Let_def insert_order_items_frame mark_sold_def clear_cart_def
      insert_order_def image_image split: if_splits)


lemma order_lines_keys:
  "map line_key (order_lines d oid) = filter (\<lambda>k. fst k = oid) (map line_key (order_items d))"
  by (simp add: order_lines_def filter_map comp_def line_key_def)

lemma filter_rows: "filter (\<lambda>k. fst k = oid) (map (row_of oid) items) = map (row_of oid) items"
  by (induction items) (simp_all add: row_of_def)

lemma filter_fresh:
  "\<forall>l\<in>set ls. oi_order_id l \<noteq> oid \<Longrightarrow> filter (\<lambda>k. fst k = oid) (map line_key ls) = []"
  by (induction ls) (simp_all add: line_key_def)

lemma sum_rows:
  "foldl (\<lambda>sum k. js_add sum (key_amount k)) (Fin 0) (map (row_of oid) items)
     = cart_total items"
  by (simp add: cart_total_def foldl_map key_amount_row)

section \<open>The total of an order\<close>

text \<open>
  C1, amended. For a checkout that returns success and whose order-line inserts all
  succeeded (no line of an earlier order carrying the new order id), the lines persisted
  for the order are exactly the lines written for the available cart items, the
  \<^verbatim>\<open>total_amount\<close> persisted in the order is the sum of price times quantity over these
  lines, added up as JavaScript adds doubles, from 0 and in the order of the lines, and
  the returned \<^verbatim>\<open>totalAmount\<close> is that sum rounded to two decimals by
  \<^verbatim>\<open>parseFloat(toFixed(2))\<close>.
\<close>

theorem checkout_total:
  assumes ok: "checkout env d userId b = (Inr rc, d')"
    and ins: "\<forall>i<length (cartQuery d userId). \<not> item_insert_err env i"
    and fresh: "\<forall>l\<in>set (order_items d). oi_order_id l \<noteq> seq_orders d"
  shows "map line_key (order_lines d' (r_orderId rc))
           = map (row_of (r_orderId rc)) (cartQuery d userId)
         \<and> (\<exists>r. orders d' = orders d @ [r] \<and> o_id r = r_orderId rc
                \<and> o_total_amount r = lines_total (order_lines d' (r_orderId rc)))
         \<and> r_totalAmount rc = toFixed2 (lines_total (order_lines d' (r_orderId rc)))"
proof -
  from ok have f: "fst (checkout env d userId b) = Inr rc"
    and s: "snd (checkout env d userId b) = d'" by simp_all
  have oid: "r_orderId rc = seq_orders d"
    and amt: "r_totalAmount rc = toFixed2 (cart_total (cartQuery d userId))"
    using checkout_receipt(2) [OF f] by simp_all
  from ins have k: "kept (item_insert_err env) 0 (cartQuery d userId) = cartQuery d userId"
    by (intro kept_all) simp
  have items: "map line_key (order_items d')
       = map line_key (order_items d) @ map (row_of (seq_orders d)) (cartQuery d userId)"
    using checkout_order_items [OF f] s k by simp
  have lines: "map line_key (order_lines d' (seq_orders d))
       = map (row_of (seq_orders d)) (cartQuery d userId)"
    by (simp add: order_lines_keys items filter_rows filter_fresh [OF fresh])
  have tot: "lines_total (order_lines d' (seq_orders d)) = cart_total (cartQuery d userId)"
    by (simp only: lines_total_keys lines sum_rows)
  have "orders d' = orders d @
          [\<lparr>o_id = seq_orders d, o_user_id = userId,
            o_total_amount = cart_total (cartQuery d userId),
            o_status = ''completed'', o_customer_name = str (fullName b),
            o_customer_email = str (email b), o_customer_phone = str (phone b),
            o_delivery_address = str (deliveryAddress b),
            o_delivery_notes = deliveryNotes b,
            o_order_number = orderNumber_of (now env) (random_digits env)\<rparr>]"
    using checkout_orders [OF f] s by (simp add: insert_order_def)
  then have "\<exists>r. orders d' = orders d @ [r] \<and> o_id r = seq_orders d
                \<and> o_total_amount r = cart_total (cartQuery d userId)"
    by simp
  with lines tot oid amt show ?thesis by simp
qed

lemma orderNumber_no_faults: "orderNumber_of 1700000000000 [18, 3, 35, 0, 7, 20, 11] = ''ECO-1700000000000-I3Z07''"
  by (simp add: orderNumber_of_def string_of_nat_example random_suffix_def toUpperCase_def substr_def toString36_def toUpperChar_def digit36_def)

lemma cartQuery_db_two:
  "cartQuery db_two 7 = [(\<lparr>c_id = 1, c_user_id = 7, c_product_id = 1, c_quantity = 1\<rparr>, chair),
                         (\<lparr>c_id = 2, c_user_id = 7, c_product_id = 2, c_quantity = 2\<rparr>, book)]"
  by (simp add: cartQuery_def db_two_def chair_def book_def empty_db_def)

lemma total_of_two:
  "js_add (js_add (Fin 0) (js_mul (fl (8999 / 100)) (fl 1))) (js_mul (fl 20) (fl 2))
     = fl (12999 / 100)"
  by code_simp

lemma toFixed2_12999: "toFixed2 (fl (12999 / 100)) = fl (12999 / 100)"
  by code_simp

lemma checkout_db_two:
  "checkout no_faults db_two 7 body_ann
     = (Inr \<lparr>r_orderId = 1, r_orderNumber = ''ECO-1700000000000-I3Z07'',
             r_totalAmount = fl (12999 / 100), r_customerName = ''Ann'',
             r_deliveryAddress = ''1 Main St'', r_itemCount = 2\<rparr>,
        db_two\<lparr>products := [chair\<lparr>p_status := ''sold''\<rparr>, book\<lparr>p_status := ''sold''\<rparr>],
               cart := [],
               orders := [order_ann (fl (12999 / 100))],
               order_items := [\<lparr>oi_id = 1, oi_order_id = 1, oi_product_id = 1, oi_quantity = 1,
                                 oi_price = 8999 / 100\<rparr>,
                               \<lparr>oi_id = 2, oi_order_id = 1, oi_product_id = 2, oi_quantity = 2,
                                 oi_price = 20\<rparr>],
               seq_orders := 2, seq_order_items := 3\<rparr>)"
  unfolding checkout_def cartQuery_db_two
  by (simp add: no_faults_def body_ann_def falsy_def str_def cart_total_def line_amount_def
      chair_def book_def total_of_two toFixed2_12999 orderNumber_no_faults insert_order_def
      insert_order_item_def mark_sold_def clear_cart_def order_ann_def db_two_def empty_db_def Let_def)

lemma checkout_fail_lines:
  "checkout fail_lines db_one 7 body_ann
     = (Inr \<lparr>r_orderId = 1, r_orderNumber = ''ECO-1700000000000-I3Z07'',
             r_totalAmount = Fin 10, r_customerName = ''Ann'',
             r_deliveryAddress = ''1 Main St'', r_itemCount = 1\<rparr>,
        db_one\<lparr>products := [lamp\<lparr>p_status := ''sold''\<rparr>],
               cart := [],
               orders := [order_ann (Fin 10)],
               seq_orders := 2\<rparr>)"
  unfolding checkout_def cartQuery_db_one
  by (simp add: fail_lines_def no_faults_def body_ann_def falsy_def str_def cart_total_def line_amount_def
      lamp_def total_of_10 toFixed2_10 orderNumber_no_faults insert_order_def
      insert_order_item_def mark_sold_def clear_cart_def order_ann_def db_one_def empty_db_def Let_def)

lemma checkout_two: "checkout no_faults db_two 7 body_ann = (Inr (receipt_ann (fl (12999 / 100)) 2), db_two_after)"
  by (simp add: checkout_db_two receipt_ann_def db_two_after_def)

lemma checkout_lost: "checkout fail_lines db_one 7 body_ann = (Inr (receipt_ann (Fin 10) 1), db_lost)"
  by (simp add: checkout_fail_lines receipt_ann_def db_lost_def)

theorem checkout_total_witness:
  "checkout no_faults db_two 7 body_ann = (Inr (receipt_ann (fl (12999 / 100)) 2), db_two_after)
   \<and> map line_key (order_lines db_two_after 1) = [(1, 1, 1, 8999 / 100), (1, 2, 2, 20)]
   \<and> r_totalAmount (receipt_ann (fl (12999 / 100)) 2)
       = toFixed2 (lines_total (order_lines db_two_after 1))
   \<and> lines_total (order_lines db_two_after 1) = fl (12999 / 100)"
proof -
  have ins: "\<forall>i<length (cartQuery db_two 7). \<not> item_insert_err no_faults i"
    by (simp add: no_faults_def)
  have fresh: "\<forall>l\<in>set (order_items db_two). oi_order_id l \<noteq> seq_orders db_two"
    by (simp add: db_two_def empty_db_def)
  have rows: "map (row_of 1) (cartQuery db_two 7) = [(1, 1, 1, 8999 / 100), (1, 2, 2, 20)]"
    by (simp add: cartQuery_db_two row_of_def chair_def book_def)
  have tot: "lines_total (order_lines db_two_after 1) = fl (12999 / 100)"
    by (simp add: lines_total_def order_lines_def db_two_after_def total_of_two)
  have r: "r_orderId (receipt_ann (fl (12999 / 100)) 2) = 1" by (simp add: receipt_ann_def)
  from checkout_total [OF checkout_two ins fresh] rows tot r checkout_two show ?thesis
    by simp
qed

lemma cartQuery_db_pin:
  "cartQuery db_pin 7 = [(\<lparr>c_id = 1, c_user_id = 7, c_product_id = 1, c_quantity = 1\<rparr>, pin)]"
  by (simp add: cartQuery_def db_pin_def pin_def empty_db_def)

lemma total_of_eighth: "js_add (Fin 0) (js_mul (fl (1 / 8)) (fl 1)) = Fin (1 / 8)"
  by code_simp

lemma toFixed2_eighth: "toFixed2 (Fin (1 / 8)) = fl (13 / 100)"
  by code_simp

lemma thirteen_hundredths: "fl (13 / 100) = Fin (1170935903116329 / 9007199254740992)"
  by code_simp

lemma checkout_pin:
  "checkout no_faults db_pin 7 body_ann = (Inr (receipt_ann (fl (13 / 100)) 1), db_pin_after)"
  unfolding checkout_def cartQuery_db_pin
  by (simp add: no_faults_def body_ann_def falsy_def str_def cart_total_def line_amount_def
      pin_def total_of_eighth toFixed2_eighth orderNumber_no_faults insert_order_def insert_order_item_def
      mark_sold_def clear_cart_def order_ann_def receipt_ann_def db_pin_after_def db_pin_def
      empty_db_def Let_def)

text \<open>
  C1 as stated fails. When the insert of the only order line fails, checkout still returns
  success with \<^verbatim>\<open>totalAmount\<close> 10 and persists an order of total 10, and no line is
  persisted for it. And with every insert succeeding, a pin priced 0.125 gives the
  returned \<^verbatim>\<open>totalAmount\<close> 0.13 (the double nearest to it), while the persisted line
  sums to 0.125.
\<close>

theorem checkout_total_counterexample:
  "checkout fail_lines db_one 7 body_ann = (Inr (receipt_ann (Fin 10) 1), db_lost)
   \<and> r_totalAmount (receipt_ann (Fin 10) 1) = Fin 10
   \<and> map o_total_amount (orders db_lost) = [Fin 10]
   \<and> order_items db_lost = []
   \<and> lines_total (order_lines db_lost 1) = Fin 0
   \<and> checkout no_faults db_pin 7 body_ann = (Inr (receipt_ann (fl (13 / 100)) 1), db_pin_after)
   \<and> r_totalAmount (receipt_ann (fl (13 / 100)) 1)
       = Fin (1170935903116329 / 9007199254740992)
   \<and> lines_total (order_lines db_pin_after 1) = Fin (1 / 8)"
proof -
  have "order_items db_lost = []" "map o_total_amount (orders db_lost) = [Fin 10]"
    by (simp_all add: db_lost_def order_ann_def db_one_def empty_db_def)
  moreover have "lines_total (order_lines db_lost 1) = Fin 0"
    by (simp add: lines_total_def order_lines_def db_lost_def db_one_def empty_db_def)
  moreover have "r_totalAmount (receipt_ann (Fin 10) 1) = Fin 10"
    "r_totalAmount (receipt_ann (fl (13 / 100)) 1) = Fin (1170935903116329 / 9007199254740992)"
    by (simp_all add: receipt_ann_def thirteen_hundredths)
  moreover have "lines_total (order_lines db_pin_after 1) = Fin (1 / 8)"
    by (simp add: lines_total_def order_lines_def db_pin_after_def total_of_eighth)
  ultimately show ?thesis using checkout_lost checkout_pin by simp
qed

lemma insert_order_items_append:
  "\<exists>new. order_items (insert_order_items err oid i items d) = order_items d @ new
         \<and> map line_key new = map (row_of oid) (kept err i items)"
proof (induction items arbitrary: i d)
  case Nil
  then show ?case by simp
next
  case (Cons item rest)
  show ?case
  proof (cases "err i")
    case True
    with Cons.IH [of "Suc i" d] show ?thesis by simp
  next
    case False
    let ?d1 = "insert_order_item oid item d"
    from Cons.IH [of "Suc i" ?d1] obtain new where
      n: "order_items (insert_order_items err oid (Suc i) rest ?d1) = order_items ?d1 @ new"
         "map line_key new = map (row_of oid) (kept err (Suc i) rest)"
      by blast
    obtain x where x: "order_items ?d1 = order_items d @ [x]" "line_key x = row_of oid item"
      by (simp add: insert_order_item_def line_key_def row_of_def)
    from False n x have
      "order_items (insert_order_items err oid i (item # rest) d) = order_items d @ (x # new)
       \<and> map line_key (x # new) = map (row_of oid) (kept err i (item # rest))"
      by simp
    then show ?thesis by blast
  qed
qed

lemma checkout_appends_lines:
  assumes "fst (checkout env d userId b) = Inr rc"
  shows "\<exists>new. order_items (snd (checkout env d userId b)) = order_items d @ new
           \<and> map line_key new
               = map (row_of (seq_orders d)) (kept (item_insert_err env) 0 (cartQuery d userId))"
proof -
  let ?d1 = "insert_order userId (cart_total (cartQuery d userId)) b
               (orderNumber_of (now env) (random_digits env)) d"
  have "order_items (snd (checkout env d userId b))
          = order_items (insert_order_items (item_insert_err env) (seq_orders d) 0
                           (cartQuery d userId) ?d1)"
    using assms
    by (auto simp: checkout_def Let_def mark_sold_def clear_cart_def split: if_splits)
  moreover have "order_items ?d1 = order_items d" by (simp add: insert_order_def)
  ultimately show ?thesis
    using insert_order_items_append
      [of "item_insert_err env" "seq_orders d" 0 "cartQuery d userId" ?d1]
    by simp
qed

lemma row_of_line:
  "line_key l = row_of oid item \<Longrightarrow>
     oi_order_id l = oid \<and> oi_product_id l = c_product_id (fst item)
     \<and> oi_quantity l = c_quantity (fst item) \<and> oi_price l = p_price (snd item)"
  by (simp add: line_key_def row_of_def)

lemma map_eq_mem:
  assumes "map f xs = map g ys" and "y \<in> set ys"
  shows "\<exists>x\<in>set xs. f x = g y"
proof -
  from assms(2) have "g y \<in> set (map g ys)" by simp
  with assms(1) have "g y \<in> set (map f xs)" by simp
  then show ?thesis by auto
qed

lemma map_eq_mem_rev:
  assumes "map f xs = map g ys" and "x \<in> set xs"
  shows "\<exists>y\<in>set ys. f x = g y"
proof -
  from assms(2) have "f x \<in> set (map f xs)" by simp
  with assms(1) have "f x \<in> set (map g ys)" by simp
  then show ?thesis by auto
qed

section \<open>No order without lines\<close>

text \<open>
  C2, amended. A checkout that answers with an error (validation, cart query, empty cart,
  or the insert of the order header) leaves the database as it was. A checkout that
  answers with success and whose order-line inserts all succeeded keeps the property that
  every Order has at least one OrderLine, the new Order has a line, and every product row
  it changed (marked sold) is referenced by a line of the new Order.
\<close>

theorem checkout_no_partial_order:
  "(fst (checkout env d userId b) = Inl e \<longrightarrow> snd (checkout env d userId b) = d)
   \<and> (checkout env d userId b = (Inr rc, d')
        \<and> (\<forall>i<length (cartQuery d userId). \<not> item_insert_err env i)
        \<and> orders_have_lines d
      \<longrightarrow> orders_have_lines d'
          \<and> (\<exists>l\<in>set (order_items d'). oi_order_id l = r_orderId rc)
          \<and> (\<forall>p'\<in>set (products d').
                p' \<in> set (products d)
                \<or> (\<exists>l\<in>set (order_items d').
                      oi_order_id l = r_orderId rc \<and> oi_product_id l = p_id p')))"
proof -
  have err: "fst (checkout env d userId b) = Inl e \<longrightarrow> snd (checkout env d userId b) = d"
    using checkout_error by blast
  have "orders_have_lines d'
          \<and> (\<exists>l\<in>set (order_items d'). oi_order_id l = r_orderId rc)
          \<and> (\<forall>p'\<in>set (products d').
                p' \<in> set (products d)
                \<or> (\<exists>l\<in>set (order_items d').
                      oi_order_id l = r_orderId rc \<and> oi_product_id l = p_id p'))"
    if a: "checkout env d userId b = (Inr rc, d')
        \<and> (\<forall>i<length (cartQuery d userId). \<not> item_insert_err env i)
        \<and> orders_have_lines d"
  proof -
  from a have f: "fst (checkout env d userId b) = Inr rc"
    and s: "snd (checkout env d userId b) = d'" by simp_all
  have oid: "r_orderId rc = seq_orders d" using checkout_receipt(2) [OF f] by simp
  have ne: "cartQuery d userId \<noteq> []" by (rule checkout_receipt(1) [OF f])
  from a have k: "kept (item_insert_err env) 0 (cartQuery d userId) = cartQuery d userId"
    by (intro kept_all) simp
  from checkout_appends_lines [OF f] s k obtain new where
    new: "order_items d' = order_items d @ new"
         "map line_key new = map (row_of (seq_orders d)) (cartQuery d userId)"
    by auto
  have ords: "orders d' = orders d @
          [\<lparr>o_id = seq_orders d, o_user_id = userId,
            o_total_amount = cart_total (cartQuery d userId),
            o_status = ''completed'', o_customer_name = str (fullName b),
            o_customer_email = str (email b), o_customer_phone = str (phone b),
            o_delivery_address = str (deliveryAddress b),
            o_delivery_notes = deliveryNotes b,
            o_order_number = orderNumber_of (now env) (random_digits env)\<rparr>]"
    using checkout_orders [OF f] s by (simp add: insert_order_def)
  have line_for: "\<exists>l\<in>set new. oi_order_id l = seq_orders d
                     \<and> oi_product_id l = c_product_id (fst item)"
    if "item \<in> set (cartQuery d userId)" for item
  proof -
    from map_eq_mem [OF new(2) that] obtain l where
      "l \<in> set new" "line_key l = row_of (seq_orders d) item" by blast
    then show ?thesis using row_of_line by blast
  qed
  from ne obtain item where "item \<in> set (cartQuery d userId)" by (cases "cartQuery d userId") auto
  from line_for [OF this] new(1) have one: "\<exists>l\<in>set (order_items d'). oi_order_id l = seq_orders d"
    by auto
  have all: "orders_have_lines d'"
    unfolding orders_have_lines_def
  proof
    fix r assume "r \<in> set (orders d')"
    with ords have "r \<in> set (orders d) \<or> o_id r = seq_orders d" by auto
    then show "\<exists>l\<in>set (order_items d'). oi_order_id l = o_id r"
    proof
      assume "r \<in> set (orders d)"
      with a have "\<exists>l\<in>set (order_items d). oi_order_id l = o_id r"
        by (simp add: orders_have_lines_def)
      with new(1) show ?thesis by auto
    next
      assume "o_id r = seq_orders d"
      with one show ?thesis by simp
    qed
  qed
  have sold: "\<forall>p'\<in>set (products d').
                p' \<in> set (products d)
                \<or> (\<exists>l\<in>set (order_items d').
                      oi_order_id l = seq_orders d \<and> oi_product_id l = p_id p')"
  proof
    fix p' assume p': "p' \<in> set (products d')"
    show "p' \<in> set (products d)
                \<or> (\<exists>l\<in>set (order_items d').
                      oi_order_id l = seq_orders d \<and> oi_product_id l = p_id p')"
    proof (cases "p' \<in> set (products d)")
      case True
      then show ?thesis by simp
    next
      case False
      from p' checkout_products [OF f] s False obtain p where
        "p \<in> set (products d)" "p_id p \<in> c_product_id ` fst ` set (cartQuery d userId)"
        "p' = p\<lparr>p_status := ''sold''\<rparr>"
        by (auto split: if_splits)
      then obtain item where "item \<in> set (cartQuery d userId)" "c_product_id (fst item) = p_id p'"
        by auto
      with line_for [of item] new(1) show ?thesis by auto
    qed
  qed
  from all one sold oid show ?thesis by simp
  qed
  with err show ?thesis by blast
qed

lemma checkout_fail_header: "fst (checkout fail_header db_one 7 body_ann) = Inl WriteFailed"
  unfolding checkout_def cartQuery_db_one
  by (simp add: fail_header_def no_faults_def body_ann_def falsy_def Let_def)

theorem checkout_no_partial_order_witness:
  "checkout fail_header db_one 7 body_ann = (Inl WriteFailed, db_one)
   \<and> orders_have_lines db_two
   \<and> checkout no_faults db_two 7 body_ann = (Inr (receipt_ann (fl (12999 / 100)) 2), db_two_after)
   \<and> orders_have_lines db_two_after
   \<and> map oi_product_id (order_lines db_two_after 1) = [1, 2]
   \<and> map p_id (products db_two_after) = [1, 2]"
proof -
  note inst1 = checkout_no_partial_order
    [of fail_header db_one 7 body_ann WriteFailed "receipt_ann (Fin 10) 1" db_lost]
  note inst2 = checkout_no_partial_order
    [of no_faults db_two 7 body_ann WriteFailed "receipt_ann (fl (12999 / 100)) 2" db_two_after]
  from inst1 checkout_fail_header
  have "snd (checkout fail_header db_one 7 body_ann) = db_one" by blast
  with checkout_fail_header
  have 1: "checkout fail_header db_one 7 body_ann = (Inl WriteFailed, db_one)"
    by (simp add: prod_eq_iff)
  have h: "orders_have_lines db_two"
    by (simp add: orders_have_lines_def db_two_def empty_db_def)
  have ins: "\<forall>i<length (cartQuery db_two 7). \<not> item_insert_err no_faults i"
    by (simp add: no_faults_def)
  from inst2 checkout_two ins h have 2: "orders_have_lines db_two_after" by blast
  have 3: "map oi_product_id (order_lines db_two_after 1) = [1, 2]"
    "map p_id (products db_two_after) = [1, 2]"
    by (simp_all add: order_lines_def db_two_after_def db_two_def chair_def book_def)
  from 1 h checkout_two 2 3 show ?thesis by simp
qed

text \<open>
  C2 as stated fails: when the insert of the only order line fails after the order header
  was inserted, order 1 stays in the database without any line, and the lamp is marked
  sold although no order line references it.
\<close>

theorem checkout_partial_order_counterexample:
  "orders_have_lines db_one
   \<and> checkout fail_lines db_one 7 body_ann = (Inr (receipt_ann (Fin 10) 1), db_lost)
   \<and> \<not> orders_have_lines db_lost
   \<and> map o_id (orders db_lost) = [1]
   \<and> order_items db_lost = []
   \<and> map p_status (products db_lost) = [''sold'']"
proof -
  have "orders_have_lines db_one"
    by (simp add: orders_have_lines_def db_one_def empty_db_def)
  moreover have "order_items db_lost = []" "map o_id (orders db_lost) = [1]"
    "map p_status (products db_lost) = [''sold'']"
    by (simp_all add: db_lost_def order_ann_def db_one_def empty_db_def)
  moreover from this have "\<not> orders_have_lines db_lost"
    by (auto simp: orders_have_lines_def)
  ultimately show ?thesis using checkout_lost by simp
qed

section \<open>What the other routes leave alone\<close>

lemma addItem_frame:
  "users (snd (addItem f d userId productId quantity)) = users d
   \<and> products (snd (addItem f d userId productId quantity)) = products d
   \<and> orders (snd (addItem f d userId productId quantity)) = orders d
   \<and> order_items (snd (addItem f d userId productId quantity)) = order_items d
   \<and> seq_products (snd (addItem f d userId productId quantity)) = seq_products d"
  by (simp add: addItem_def Let_def split: option.splits)

lemma updateQuantity_frame:
  "users (snd (updateQuantity f d userId itemId quantity)) = users d
   \<and> products (snd (updateQuantity f d userId itemId quantity)) = products d
   \<and> orders (snd (updateQuantity f d userId itemId quantity)) = orders d
   \<and> order_items (snd (updateQuantity f d userId itemId quantity)) = order_items d
   \<and> seq_products (snd (updateQuantity f d userId itemId quantity)) = seq_products d"
  by (simp add: updateQuantity_def split: option.splits)

lemma removeItem_frame:
  "users (snd (removeItem f d userId itemId)) = users d
   \<and> products (snd (removeItem f d userId itemId)) = products d
   \<and> orders (snd (removeItem f d userId itemId)) = orders d
   \<and> order_items (snd (removeItem f d userId itemId)) = order_items d
   \<and> seq_products (snd (removeItem f d userId itemId)) = seq_products d"
  by (simp add: removeItem_def split: option.splits)

lemma clearAll_frame:
  "users (snd (clearAll f d userId)) = users d
   \<and> products (snd (clearAll f d userId)) = products d
   \<and> orders (snd (clearAll f d userId)) = orders d
   \<and> order_items (snd (clearAll f d userId)) = order_items d
   \<and> seq_products (snd (clearAll f d userId)) = seq_products d"
  by (simp add: clearAll_def clear_cart_def)

lemma product_create_frame:
  "orders (snd (product_create f d sellerId role b)) = orders d
   \<and> order_items (snd (product_create f d sellerId role b)) = order_items d"
  by (simp add: product_create_def split: option.splits)

lemma product_update_frame:
  "orders (snd (product_update f d userId role productId b)) = orders d
   \<and> order_items (snd (product_update f d userId role productId b)) = order_items d
   \<and> seq_products (snd (product_update f d userId role productId b)) = seq_products d"
  by (simp add: product_update_def split: option.splits)

lemma checkout_appends:
  "\<exists>os ls. orders (snd (checkout env d userId b)) = orders d @ os
         \<and> order_items (snd (checkout env d userId b)) = order_items d @ ls"
proof (cases "fst (checkout env d userId b)")
  case (Inl e)
  then have "snd (checkout env d userId b) = d" by (rule checkout_error)
  then show ?thesis by simp
next
  case (Inr rc)
  from checkout_appends_lines [OF Inr] obtain ls where
    "order_items (snd (checkout env d userId b)) = order_items d @ ls" by blast
  moreover from checkout_orders [OF Inr] have
    "\<exists>os. orders (snd (checkout env d userId b)) = orders d @ os"
    by (simp add: insert_order_def)
  ultimately show ?thesis by blast
qed

lemma handle_appends:
  "\<exists>os ls. orders (handle r d) = orders d @ os \<and> order_items (handle r d) = order_items d @ ls"
proof (cases r)
  case (Checkout env userId b)
  then show ?thesis using checkout_appends [of env d userId b] by simp
qed (simp_all add: addItem_frame updateQuantity_frame removeItem_frame clearAll_frame
      product_create_frame product_update_frame)

lemma run_Cons: "run (r # rs) d = run rs (handle r d)"
  by (simp add: run_def)


lemma run_appends:
  "\<exists>os ls. orders (run rs d) = orders d @ os \<and> order_items (run rs d) = order_items d @ ls"
proof (induction rs arbitrary: d)
  case Nil
  then show ?case by (simp add: run_def)
next
  case (Cons r rs)
  from handle_appends [of r d] obtain os ls where
    h: "orders (handle r d) = orders d @ os" "order_items (handle r d) = order_items d @ ls"
    by blast
  from Cons.IH [of "handle r d"] obtain os' ls' where
    "orders (run rs (handle r d)) = orders (handle r d) @ os'"
    "order_items (run rs (handle r d)) = order_items (handle r d) @ ls'"
    by blast
  with h have "orders (run (r # rs) d) = orders d @ (os @ os')
               \<and> order_items (run (r # rs) d) = order_items d @ (ls @ ls')"
    by (simp add: run_Cons)
  then show ?case by blast
qed

section \<open>Prices of past orders\<close>

text \<open>
  C6. The lines a successful checkout adds carry the price the catalog had at checkout
  time, as a value of their own. A later product update, whatever it writes, returns a
  database with the same orders and the same order lines, so the line prices and the
  \<^verbatim>\<open>total_amount\<close> of the order are unchanged; and after any sequence of requests the
  orders and order lines of before are still there, unchanged, in front of the new ones.
\<close>

theorem order_prices_frozen:
  assumes "checkout env d userId b = (Inr rc, d1)"
  shows "(\<exists>new. order_items d1 = order_items d @ new
            \<and> (\<forall>l\<in>set new. oi_order_id l = r_orderId rc
                  \<and> (\<exists>p\<in>set (products d). oi_product_id l = p_id p \<and> oi_price l = p_price p)))
         \<and> orders (snd (product_update f d1 u role pid body)) = orders d1
         \<and> order_items (snd (product_update f d1 u role pid body)) = order_items d1
         \<and> (\<exists>os ls. orders (run rs d1) = orders d1 @ os
                    \<and> order_items (run rs d1) = order_items d1 @ ls)"
proof -
  from assms have f: "fst (checkout env d userId b) = Inr rc"
    and s: "snd (checkout env d userId b) = d1" by simp_all
  have oid: "r_orderId rc = seq_orders d" using checkout_receipt(2) [OF f] by simp
  from checkout_appends_lines [OF f] s obtain new where
    new: "order_items d1 = order_items d @ new"
         "map line_key new
            = map (row_of (seq_orders d)) (kept (item_insert_err env) 0 (cartQuery d userId))"
    by auto
  have "oi_order_id l = r_orderId rc
        \<and> (\<exists>p\<in>set (products d). oi_product_id l = p_id p \<and> oi_price l = p_price p)"
    if "l \<in> set new" for l
  proof -
    from map_eq_mem_rev [OF new(2) that] obtain item where
      item: "item \<in> set (kept (item_insert_err env) 0 (cartQuery d userId))"
            "line_key l = row_of (seq_orders d) item"
      by blast
    from item(1) set_kept [of "item_insert_err env" 0 "cartQuery d userId"]
    have "item \<in> set (cartQuery d userId)" by auto
    then have "snd item \<in> set (products d)" "c_product_id (fst item) = p_id (snd item)"
      by (auto simp: set_cartQuery)
    with row_of_line [OF item(2)] oid show ?thesis by auto
  qed
  with new(1) have 1: "\<exists>new. order_items d1 = order_items d @ new
            \<and> (\<forall>l\<in>set new. oi_order_id l = r_orderId rc
                  \<and> (\<exists>p\<in>set (products d). oi_product_id l = p_id p \<and> oi_price l = p_price p))"
    by blast
  from 1 product_update_frame [of f d1 u role pid body] run_appends [of rs d1]
  show ?thesis by simp
qed

lemma product_update_cheaper:
  "product_update ok db_two_after 1 ''seller'' 1 cheaper
     = (Inr ''Product updated successfully'',
        db_two_after\<lparr>products := [chair\<lparr>p_price := 1, p_status := ''sold''\<rparr>,
                                   book\<lparr>p_status := ''sold''\<rparr>]\<rparr>)"
  by (simp add: product_update_def set_columns_def ok_def db_two_after_def db_two_def
      empty_db_def chair_def book_def cheaper_def falsy_def str_def)

theorem order_prices_frozen_witness:
  "checkout no_faults db_two 7 body_ann = (Inr (receipt_ann (fl (12999 / 100)) 2), db_two_after)
   \<and> map p_price (products db_two) = [8999 / 100, 20]
   \<and> map p_price (products (snd (product_update ok db_two_after 1 ''seller'' 1 cheaper))) = [1, 20]
   \<and> map oi_price (order_items (snd (product_update ok db_two_after 1 ''seller'' 1 cheaper)))
       = [8999 / 100, 20]
   \<and> map o_total_amount (orders (snd (product_update ok db_two_after 1 ''seller'' 1 cheaper)))
       = [fl (12999 / 100)]"
proof -
  note inst = order_prices_frozen [OF checkout_two, of ok 1 "''seller''" 1 cheaper "[]"]
  have 1: "map oi_price (order_items db_two_after) = [8999 / 100, 20]"
    "map o_total_amount (orders db_two_after) = [fl (12999 / 100)]"
    by (simp_all add: db_two_after_def order_ann_def)
  have 2: "map p_price (products db_two) = [8999 / 100, 20]"
    by (simp add: db_two_def chair_def book_def)
  have 3: "map p_price (products (snd (product_update ok db_two_after 1 ''seller'' 1 cheaper))) = [1, 20]"
    unfolding product_update_cheaper by (simp add: chair_def book_def)
  from inst 1 2 3 checkout_two show ?thesis by simp
qed

section \<open>A product is sold once\<close>












































end
